theory Spec2Isabelle
  imports Main
begin

section \<open>Python values, exceptions and call outcomes\<close>

text \<open>
  The payload of a channel is an arbitrary Python object. The field that stores it is
  annotated \<^verbatim>\<open>T | None\<close> and starts as \<^verbatim>\<open>None\<close>, and Python has a single
  \<^verbatim>\<open>None\<close>: when the payload type itself admits \<^verbatim>\<open>None\<close>, the union
  collapses. A Python object is therefore either \<open>PyNone\<close> or \<open>Obj a\<close> for a value
  \<open>a\<close> that is not \<^verbatim>\<open>None\<close>.
\<close>

datatype 'a pyobj = PyNone | Obj 'a

text \<open>
  The two exceptions of the source: \<^verbatim>\<open>raise ValueError(...)\<close> in \<^verbatim>\<open>send\<close> and the
  \<^verbatim>\<open>AssertionError\<close> of a failing \<^verbatim>\<open>assert\<close>. The message of an exception is not
  modelled: it embeds the \<^verbatim>\<open>repr\<close> of an \<^verbatim>\<open>asyncio.Event\<close>, which prints a memory
  address.
\<close>

datatype error = ValueError | AssertionError

text \<open>
  What a call does in one turn of the event loop: it returns a Python object (a
  function without \<^verbatim>\<open>return\<close> returns \<^verbatim>\<open>None\<close>), raises, or, for the coroutine
  \<^verbatim>\<open>recv\<close>, suspends at its \<^verbatim>\<open>await\<close>. \<open>NotRunnable\<close> is the answer of the
  event loop when asked to resume a coroutine while none can be resumed.
\<close>

datatype 'a outcome = Returned "'a pyobj" | Raised error | Suspended | NotRunnable

section \<open>The wake signal: \<^verbatim>\<open>asyncio.Event\<close>\<close>

text \<open>
  Modelled from the spec: \<^verbatim>\<open>asyncio.Event\<close> belongs to the Python standard library,
  not to the repository. The spec describes it as a wake primitive with two states,
  unset and set, that is set once, wakes all current and future waiters and never
  resets. The model keeps the flag and the number of coroutines parked in \<^verbatim>\<open>wait()\<close>.
  \<^verbatim>\<open>wait()\<close> returns at once when the flag is set and parks the caller otherwise;
  \<^verbatim>\<open>set()\<close> raises the flag, after which the event loop may resume the parked
  coroutines one by one (\<open>wake\<close>).
\<close>

record Event =
  flag :: bool
  waiters :: nat

definition Event_init :: Event where
  "Event_init = \<lparr>flag = False, waiters = 0\<rparr>"

definition is_set :: "Event \<Rightarrow> bool" where
  "is_set e = flag e"

definition set_event :: "Event \<Rightarrow> Event" where
  "set_event e = (if flag e then e else e\<lparr>flag := True\<rparr>)"

datatype wait_result = Ready | Pending

definition wait :: "Event \<Rightarrow> wait_result \<times> Event" where
  "wait e = (if flag e then (Ready, e) else (Pending, e\<lparr>waiters := Suc (waiters e)\<rparr>))"

definition wake :: "Event \<Rightarrow> Event option" where
  "wake e = (if flag e \<and> 0 < waiters e then Some (e\<lparr>waiters := waiters e - 1\<rparr>) else None)"

section \<open>Module \<^verbatim>\<open>aiosync.oneshot\<close>: the single object \<^verbatim>\<open>OneShot\<close>\<close>

text \<open>
  The dataclass \<^verbatim>\<open>OneShot\<close> with its fields \<^verbatim>\<open>_waker\<close>, \<^verbatim>\<open>_sent\<close> and
  \<^verbatim>\<open>_value\<close> (an Isabelle name cannot start with an underscore). Every method takes
  the object and returns its outcome together with the object after the call, also
  when it raises: a Python exception does not roll anything back. The methods carry
  the prefix \<open>OneShot_\<close>, since both modules name theirs \<^verbatim>\<open>send\<close>,
  \<^verbatim>\<open>try_recv\<close> and \<^verbatim>\<open>recv\<close>. The statements
  \<^verbatim>\<open>_ = _ASSUME_ONE_SHOT_SENT_IS_TRUE_MEANS_ALREADY_SENT\<close> read a module constant
  and do nothing. An \<^verbatim>\<open>assert\<close> is modelled as Python runs it by default, with
  assertions enabled.
\<close>

record 'a OneShot =
  OneShot_waker :: Event
  OneShot_sent :: bool
  OneShot_value :: "'a pyobj"

definition OneShot_init :: "'a OneShot" where
  "OneShot_init = \<lparr>OneShot_waker = Event_init, OneShot_sent = False, OneShot_value = PyNone\<rparr>"

definition OneShot_send :: "'a pyobj \<Rightarrow> 'a OneShot \<Rightarrow> 'a outcome \<times> 'a OneShot" where
  "OneShot_send v self =
     (if is_set (OneShot_waker self) then (Raised ValueError, self)
      else let self1 = self\<lparr>OneShot_value := v\<rparr>;
               self2 = self1\<lparr>OneShot_sent := True\<rparr>;
               self3 = self2\<lparr>OneShot_waker := set_event (OneShot_waker self2)\<rparr>
           in (Returned PyNone, self3))"

definition OneShot_try_recv :: "'a OneShot \<Rightarrow> 'a outcome \<times> 'a OneShot" where
  "OneShot_try_recv self =
     (if is_set (OneShot_waker self) then
        (if OneShot_sent self then (Returned (OneShot_value self), self)
         else (Raised AssertionError, self))
      else (Returned PyNone, self))"

text \<open>
  \<^verbatim>\<open>recv\<close> is a coroutine with one suspension point, \<^verbatim>\<open>await self._waker.wait()\<close>.
  \<open>OneShot_recv_resume\<close> is the code after the \<^verbatim>\<open>await\<close>; \<open>OneShot_recv\<close> is the call:
  it runs on into that code when \<^verbatim>\<open>wait()\<close> returns at once and suspends otherwise.
\<close>

definition OneShot_recv_resume :: "'a OneShot \<Rightarrow> 'a outcome \<times> 'a OneShot" where
  "OneShot_recv_resume self =
     (if OneShot_sent self then (Returned (OneShot_value self), self)
      else (Raised AssertionError, self))"

definition OneShot_recv :: "'a OneShot \<Rightarrow> 'a outcome \<times> 'a OneShot" where
  "OneShot_recv self =
     (case wait (OneShot_waker self) of
        (Ready, e) \<Rightarrow> OneShot_recv_resume (self\<lparr>OneShot_waker := e\<rparr>)
      | (Pending, e) \<Rightarrow> (Suspended, self\<lparr>OneShot_waker := e\<rparr>))"

text \<open>
  The event loop resuming one coroutine parked in \<^verbatim>\<open>recv\<close>: possible only once
  the wake signal is set and while a coroutine is parked.
\<close>

definition OneShot_resume :: "'a OneShot \<Rightarrow> 'a outcome \<times> 'a OneShot" where
  "OneShot_resume self =
     (case wake (OneShot_waker self) of
        None \<Rightarrow> (NotRunnable, self)
      | Some e \<Rightarrow> OneShot_recv_resume (self\<lparr>OneShot_waker := e\<rparr>))"

section \<open>Module \<^verbatim>\<open>aio_sync.oneshot\<close>: a sender and a receiver over a shared cell\<close>

text \<open>
  The dataclass \<^verbatim>\<open>_SharedState\<close>. The sender and the receiver both hold a reference
  to one such object, so the objects live in an explicit store: a heap maps addresses
  to cells and knows the next free address, and a handle is the address of its cell.
  As for \<^verbatim>\<open>aiosync\<close>, \<open>recv_resume\<close> is the code of \<^verbatim>\<open>recv\<close> after its
  \<^verbatim>\<open>await\<close> and \<open>resume\<close> is the event loop resuming a parked \<^verbatim>\<open>recv\<close>.
\<close>

record 'a SharedState =
  waker :: Event
  sent :: bool
  "value" :: "'a pyobj"

definition SharedState_init :: "'a SharedState" where
  "SharedState_init = \<lparr>waker = Event_init, sent = False, value = PyNone\<rparr>"

type_synonym addr = nat

record 'a heap =
  store :: "addr \<Rightarrow> 'a SharedState"
  next_addr :: addr

datatype OneShotReceiver = OneShotReceiver (receiver_state: addr)

datatype OneShotSender = OneShotSender (sender_state: addr)

definition try_recv :: "OneShotReceiver \<Rightarrow> 'a heap \<Rightarrow> 'a outcome \<times> 'a heap" where
  "try_recv self h =
     (let st = store h (receiver_state self) in
      if is_set (waker st) then
        (if sent st then (Returned (value st), h) else (Raised AssertionError, h))
      else (Returned PyNone, h))"

definition recv_resume :: "OneShotReceiver \<Rightarrow> 'a heap \<Rightarrow> 'a outcome \<times> 'a heap" where
  "recv_resume self h =
     (let st = store h (receiver_state self) in
      if sent st then (Returned (value st), h) else (Raised AssertionError, h))"

definition recv :: "OneShotReceiver \<Rightarrow> 'a heap \<Rightarrow> 'a outcome \<times> 'a heap" where
  "recv self h =
     (let a = receiver_state self; st = store h a in
      case wait (waker st) of
        (Ready, e) \<Rightarrow> recv_resume self (h\<lparr>store := (store h)(a := st\<lparr>waker := e\<rparr>)\<rparr>)
      | (Pending, e) \<Rightarrow> (Suspended, h\<lparr>store := (store h)(a := st\<lparr>waker := e\<rparr>)\<rparr>))"

definition resume :: "OneShotReceiver \<Rightarrow> 'a heap \<Rightarrow> 'a outcome \<times> 'a heap" where
  "resume self h =
     (let a = receiver_state self; st = store h a in
      case wake (waker st) of
        None \<Rightarrow> (NotRunnable, h)
      | Some e \<Rightarrow> recv_resume self (h\<lparr>store := (store h)(a := st\<lparr>waker := e\<rparr>)\<rparr>))"

definition send :: "OneShotSender \<Rightarrow> 'a pyobj \<Rightarrow> 'a heap \<Rightarrow> 'a outcome \<times> 'a heap" where
  "send self v h =
     (let a = sender_state self in
      if is_set (waker (store h a)) then (Raised ValueError, h)
      else let h1 = h\<lparr>store := (store h)(a := (store h a)\<lparr>value := v\<rparr>)\<rparr>;
               h2 = h1\<lparr>store := (store h1)(a := (store h1 a)\<lparr>sent := True\<rparr>)\<rparr>;
               h3 = h2\<lparr>store := (store h2)(a := (store h2 a)\<lparr>waker := set_event (waker (store h2 a))\<rparr>)\<rparr>
           in (Returned PyNone, h3))"

text \<open>
  \<^verbatim>\<open>oneshot_channel()\<close> allocates one cell and hands its address to both handles.
  The class method \<^verbatim>\<open>OneShot.channel()\<close> wraps the same pair in a named tuple, which
  is a tuple.
\<close>

definition oneshot_channel :: "'a heap \<Rightarrow> (OneShotSender \<times> OneShotReceiver) \<times> 'a heap" where
  "oneshot_channel h =
     (let state = next_addr h;
          h1 = h\<lparr>store := (store h)(state := SharedState_init), next_addr := Suc state\<rparr>
      in ((OneShotSender state, OneShotReceiver state), h1))"

definition channel :: "'a heap \<Rightarrow> (OneShotSender \<times> OneShotReceiver) \<times> 'a heap" where
  "channel h = (case oneshot_channel h of ((sender, receiver), h1) \<Rightarrow> ((sender, receiver), h1))"

section \<open>Sequences of calls\<close>

text \<open>
  A program using one channel on a single-threaded event loop is a sequence of turns:
  a call of \<^verbatim>\<open>send\<close>, \<^verbatim>\<open>try_recv\<close> or \<^verbatim>\<open>recv\<close>, or the loop resuming a parked
  \<^verbatim>\<open>recv\<close>. Each turn runs to its end or to the \<^verbatim>\<open>await\<close> before the next starts.
  A raised exception ends the turn, not the program.
\<close>

datatype 'a call = Send "'a pyobj" | TryRecv | Recv | Resume

fun OneShot_step :: "'a call \<Rightarrow> 'a OneShot \<Rightarrow> 'a outcome \<times> 'a OneShot" where
  "OneShot_step (Send v) self = OneShot_send v self"
| "OneShot_step TryRecv self = OneShot_try_recv self"
| "OneShot_step Recv self = OneShot_recv self"
| "OneShot_step Resume self = OneShot_resume self"

fun OneShot_run :: "'a call list \<Rightarrow> 'a OneShot \<Rightarrow> 'a outcome list \<times> 'a OneShot" where
  "OneShot_run [] self = ([], self)"
| "OneShot_run (c # cs) self =
     (case OneShot_step c self of (r, self1) \<Rightarrow>
        (case OneShot_run cs self1 of (rs, self2) \<Rightarrow> (r # rs, self2)))"

fun step :: "OneShotSender \<times> OneShotReceiver \<Rightarrow> 'a call \<Rightarrow> 'a heap \<Rightarrow> 'a outcome \<times> 'a heap" where
  "step (sender, receiver) (Send v) h = send sender v h"
| "step (sender, receiver) TryRecv h = try_recv receiver h"
| "step (sender, receiver) Recv h = recv receiver h"
| "step (sender, receiver) Resume h = resume receiver h"

fun run :: "OneShotSender \<times> OneShotReceiver \<Rightarrow> 'a call list \<Rightarrow> 'a heap \<Rightarrow> 'a outcome list \<times> 'a heap" where
  "run p [] h = ([], h)"
| "run p (c # cs) h =
     (case step p c h of (r, h1) \<Rightarrow>
        (case run p cs h1 of (rs, h2) \<Rightarrow> (r # rs, h2)))"

text \<open>
  The payload of the first \<^verbatim>\<open>send\<close> of a sequence, if it has one, and whether
  some \<^verbatim>\<open>send\<close> of a sequence returned, given the outcomes of its calls.
\<close>

fun first_sent :: "'a call list \<Rightarrow> 'a pyobj option" where
  "first_sent [] = None"
| "first_sent (Send v # cs) = Some v"
| "first_sent (c # cs) = first_sent cs"


text \<open>
  The object of \<^verbatim>\<open>aiosync\<close> after a sequence of calls on a new object, and the cell
  of \<^verbatim>\<open>aio_sync\<close> after the same calls on a new channel allocated in the heap \<open>h\<close>.
\<close>

definition OneShot_after :: "'a call list \<Rightarrow> 'a OneShot" where
  "OneShot_after cs = snd (OneShot_run cs OneShot_init)"

definition cell_after :: "'a call list \<Rightarrow> 'a heap \<Rightarrow> 'a SharedState" where
  "cell_after cs h =
     (case oneshot_channel h of ((sender, receiver), h1) \<Rightarrow>
        store (snd (run (sender, receiver) cs h1)) (receiver_state receiver))"

text \<open>
  What an observer can see of a cell: whether the wake signal is set, the sent flag
  and the value. \<open>cell_of\<close> gives the view of an empty cell and of a cell filled with
  a payload.
\<close>

definition OneShot_view :: "'a OneShot \<Rightarrow> bool \<times> bool \<times> 'a pyobj" where
  "OneShot_view self = (is_set (OneShot_waker self), OneShot_sent self, OneShot_value self)"

definition view :: "'a SharedState \<Rightarrow> bool \<times> bool \<times> 'a pyobj" where
  "view st = (is_set (waker st), sent st, value st)"

fun cell_of :: "'a pyobj option \<Rightarrow> bool \<times> bool \<times> 'a pyobj" where
  "cell_of None = (False, False, PyNone)"
| "cell_of (Some v) = (True, True, v)"

fun or_else :: "'b option \<Rightarrow> 'b option \<Rightarrow> 'b option" where
  "or_else (Some v) m = Some v"
| "or_else None m = m"

text \<open>
  A cell of \<^verbatim>\<open>aio_sync\<close> read as an object of \<^verbatim>\<open>aiosync\<close>, field by field.
\<close>

definition as_OneShot :: "'a SharedState \<Rightarrow> 'a OneShot" where
  "as_OneShot st = \<lparr>OneShot_waker = waker st, OneShot_sent = sent st, OneShot_value = value st\<rparr>"

text \<open>
  A heap for examples: every cell is new and nothing is allocated.
\<close>

definition empty_heap :: "'a heap" where
  "empty_heap = \<lparr>store = (\<lambda>a. SharedState_init), next_addr = 0\<rparr>"

section \<open>Runs, step by step\<close>

lemma OneShot_run_snd:
  "snd (OneShot_run (c # cs) self) = snd (OneShot_run cs (snd (OneShot_step c self)))"
  by (simp split: prod.splits)

lemma OneShot_run_fst:
  "fst (OneShot_run (c # cs) self) =
     fst (OneShot_step c self) # fst (OneShot_run cs (snd (OneShot_step c self)))"
  by (simp split: prod.splits)

lemma run_snd: "snd (run p (c # cs) h) = snd (run p cs (snd (step p c h)))"
  by (simp split: prod.splits)

lemma run_fst: "fst (run p (c # cs) h) = fst (step p c h) # fst (run p cs (snd (step p c h)))"
  by (simp split: prod.splits)

declare OneShot_run.simps(2) [simp del] run.simps(2) [simp del]

lemma or_else_first_sent:
  "or_else (or_else m (first_sent [c])) (first_sent cs) = or_else m (first_sent (c # cs))"
  by (cases m; cases c) simp_all

section \<open>The object of \<^verbatim>\<open>aiosync\<close> is empty or filled\<close>

lemmas OneShot_defs =
  OneShot_send_def OneShot_try_recv_def OneShot_recv_def OneShot_resume_def
  OneShot_recv_resume_def is_set_def set_event_def wait_def wake_def

lemma OneShot_init_view: "OneShot_view OneShot_init = cell_of None"
  by (simp add: OneShot_view_def OneShot_init_def Event_init_def is_set_def)

lemma OneShot_step_view:
  assumes "OneShot_view self = cell_of m"
  shows "OneShot_view (snd (OneShot_step c self)) = cell_of (or_else m (first_sent [c]))"
  using assms
  by (cases c; cases m)
     (auto simp: OneShot_view_def OneShot_defs Let_def split: option.splits)

lemma OneShot_run_view:
  "OneShot_view self = cell_of m \<Longrightarrow>
   OneShot_view (snd (OneShot_run cs self)) = cell_of (or_else m (first_sent cs))"
proof (induction cs arbitrary: self m)
  case Nil
  then show ?case by (cases m) simp_all
next
  case (Cons c cs)
  have "OneShot_view (snd (OneShot_step c self)) = cell_of (or_else m (first_sent [c]))"
    by (rule OneShot_step_view [OF Cons.prems])
  from Cons.IH [OF this] show ?case
    by (simp only: OneShot_run_snd or_else_first_sent)
qed

lemma OneShot_after_view: "OneShot_view (OneShot_after cs) = cell_of (first_sent cs)"
  using OneShot_run_view [OF OneShot_init_view, of cs] by (simp add: OneShot_after_def)

lemma OneShot_send_empty:
  "OneShot_view self = cell_of None \<Longrightarrow> fst (OneShot_send v self) = Returned PyNone"
  by (simp add: OneShot_view_def OneShot_defs Let_def)


lemma OneShot_try_recv_view:
  "OneShot_view self = cell_of m \<Longrightarrow>
   OneShot_try_recv self = (Returned (case m of None \<Rightarrow> PyNone | Some v \<Rightarrow> v), self)"
  by (cases m) (simp_all add: OneShot_view_def OneShot_defs)

lemma OneShot_recv_filled:
  "OneShot_view self = cell_of (Some v) \<Longrightarrow> OneShot_recv self = (Returned v, self)"
  by (simp add: OneShot_view_def OneShot_defs)

lemma OneShot_recv_empty:
  "OneShot_view self = cell_of None \<Longrightarrow> fst (OneShot_recv self) = Suspended"
  by (simp add: OneShot_view_def OneShot_defs)

lemma OneShot_step_no_assert:
  "OneShot_view self = cell_of m \<Longrightarrow> fst (OneShot_step c self) \<noteq> Raised AssertionError"
  by (cases c; cases m)
     (auto simp: OneShot_view_def OneShot_defs Let_def split: option.splits)

lemma OneShot_run_no_assert:
  "OneShot_view self = cell_of m \<Longrightarrow> Raised AssertionError \<notin> set (fst (OneShot_run cs self))"
proof (induction cs arbitrary: self m)
  case Nil
  show ?case by simp
next
  case (Cons c cs)
  have "OneShot_view (snd (OneShot_step c self)) = cell_of (or_else m (first_sent [c]))"
    by (rule OneShot_step_view [OF Cons.prems])
  from Cons.IH [OF this] OneShot_step_no_assert [OF Cons.prems, of c] show ?case
    by (simp only: OneShot_run_fst set_simps) auto
qed


section \<open>The two modules, step by step\<close>

lemmas aio_sync_defs =
  send_def try_recv_def recv_def resume_def recv_resume_def

lemma as_OneShot_init: "as_OneShot SharedState_init = OneShot_init"
  by (simp add: as_OneShot_def SharedState_init_def OneShot_init_def)

lemma as_OneShot_view: "OneShot_view (as_OneShot st) = view st"
  by (simp add: OneShot_view_def view_def as_OneShot_def)

lemma step_outcome:
  "fst (step (OneShotSender a, OneShotReceiver a) c h) =
     fst (OneShot_step c (as_OneShot (store h a)))"
  by (cases c)
     (auto simp: as_OneShot_def aio_sync_defs OneShot_defs Let_def split: option.splits)

lemma step_cell:
  "as_OneShot (store (snd (step (OneShotSender a, OneShotReceiver a) c h)) a) =
     snd (OneShot_step c (as_OneShot (store h a)))"
  by (cases c)
     (auto simp: as_OneShot_def aio_sync_defs OneShot_defs Let_def split: option.splits)

lemma step_frame:
  "b \<noteq> a \<Longrightarrow> store (snd (step (OneShotSender a, OneShotReceiver a) c h)) b = store h b"
  by (cases c)
     (auto simp: aio_sync_defs is_set_def wait_def wake_def Let_def split: option.splits)

lemma step_next_addr:
  "next_addr (snd (step (OneShotSender a, OneShotReceiver a) c h)) = next_addr h"
  by (cases c)
     (auto simp: aio_sync_defs is_set_def wait_def wake_def Let_def split: option.splits)

lemma run_outcomes:
  "fst (run (OneShotSender a, OneShotReceiver a) cs h) =
     fst (OneShot_run cs (as_OneShot (store h a)))"
proof (induction cs arbitrary: h)
  case Nil
  show ?case by simp
next
  case (Cons c cs)
  show ?case
    by (simp only: run_fst OneShot_run_fst step_outcome Cons.IH step_cell)
qed

lemma run_cell:
  "as_OneShot (store (snd (run (OneShotSender a, OneShotReceiver a) cs h)) a) =
     snd (OneShot_run cs (as_OneShot (store h a)))"
proof (induction cs arbitrary: h)
  case Nil
  show ?case by simp
next
  case (Cons c cs)
  show ?case
    by (simp only: run_snd OneShot_run_snd Cons.IH step_cell)
qed

lemma run_frame:
  "b \<noteq> a \<Longrightarrow> store (snd (run (OneShotSender a, OneShotReceiver a) cs h)) b = store h b"
  by (induction cs arbitrary: h) (simp_all add: run_snd step_frame)

lemma oneshot_channel_eq:
  "oneshot_channel h =
     ((OneShotSender (next_addr h), OneShotReceiver (next_addr h)),
      h\<lparr>store := (store h)(next_addr h := SharedState_init), next_addr := Suc (next_addr h)\<rparr>)"
  by (simp add: oneshot_channel_def Let_def)

lemma channel_eq: "channel h = oneshot_channel h"
  by (simp add: channel_def split: prod.splits)

lemma cell_after_eq: "as_OneShot (cell_after cs h) = OneShot_after cs"
  by (simp add: cell_after_def OneShot_after_def oneshot_channel_eq run_cell as_OneShot_init)

lemma cell_after_view: "view (cell_after cs h) = cell_of (first_sent cs)"
  using as_OneShot_view [of "cell_after cs h"] by (simp add: cell_after_eq OneShot_after_view)

lemma send_empty:
  "view (store h (sender_state sender)) = cell_of None \<Longrightarrow> fst (send sender v h) = Returned PyNone"
  by (simp add: view_def send_def is_set_def Let_def)

lemma send_filled:
  "view (store h (sender_state sender)) = cell_of (Some u) \<Longrightarrow>
   send sender v h = (Raised ValueError, h)"
  by (simp add: view_def send_def is_set_def)

lemma try_recv_view:
  "view (store h (receiver_state receiver)) = cell_of m \<Longrightarrow>
   try_recv receiver h = (Returned (case m of None \<Rightarrow> PyNone | Some v \<Rightarrow> v), h)"
  by (cases m) (simp_all add: view_def try_recv_def is_set_def)

lemma recv_filled:
  "view (store h (receiver_state receiver)) = cell_of (Some v) \<Longrightarrow>
   recv receiver h = (Returned v, h)"
  by (simp add: view_def recv_def recv_resume_def is_set_def wait_def Let_def)

section \<open>The scenarios of the test suite\<close>

text \<open>
  \<^verbatim>\<open>test_oneshot_send_and_try_recv\<close>: \<^verbatim>\<open>try_recv()\<close> is \<^verbatim>\<open>None\<close>, \<^verbatim>\<open>send(4)\<close>
  returns, \<^verbatim>\<open>try_recv()\<close> is 4 and \<^verbatim>\<open>send(5)\<close> raises \<^verbatim>\<open>ValueError\<close>.
\<close>

lemma test_oneshot_send_and_try_recv:
  "fst (run (fst (channel empty_heap)) [TryRecv, Send (Obj (4::int)), TryRecv, Send (Obj 5)]
          (snd (channel empty_heap))) =
     [Returned PyNone, Returned PyNone, Returned (Obj 4), Raised ValueError]"
  by (simp add: channel_eq oneshot_channel_eq run_outcomes as_OneShot_def empty_heap_def
      SharedState_init_def Event_init_def OneShot_run_fst OneShot_defs Let_def)

text \<open>
  \<^verbatim>\<open>test_oneshot_recv_waits_for_value\<close>: \<^verbatim>\<open>recv()\<close> suspends, another task calls
  \<^verbatim>\<open>send(9)\<close>, and the resumed \<^verbatim>\<open>recv()\<close> returns 9.
\<close>

lemma test_oneshot_recv_waits_for_value:
  "fst (run (fst (channel empty_heap)) [Recv, Send (Obj (9::int)), Resume]
          (snd (channel empty_heap))) =
     [Suspended, Returned PyNone, Returned (Obj 9)]"
  by (simp add: channel_eq oneshot_channel_eq run_outcomes as_OneShot_def empty_heap_def
      SharedState_init_def Event_init_def OneShot_run_fst OneShot_defs Let_def)

text \<open>
  The assertion is a live branch of the model: on an object whose signal is set while
  its sent flag is false, which no sequence of calls produces, both readers raise.
\<close>

lemma assertion_fires_on_inconsistent_object:
  "fst (OneShot_try_recv \<lparr>OneShot_waker = \<lparr>flag = True, waiters = 0\<rparr>, OneShot_sent = False,
          OneShot_value = PyNone\<rparr>) = Raised AssertionError \<and>
   fst (OneShot_recv \<lparr>OneShot_waker = \<lparr>flag = True, waiters = 0\<rparr>, OneShot_sent = False,
          OneShot_value = PyNone\<rparr>) = Raised AssertionError"
  by (simp add: OneShot_defs)

section \<open>The claims\<close>

text \<open>
  C1: for every value \<open>v\<close>, on a new channel \<^verbatim>\<open>send(v)\<close> returns and a following
  \<^verbatim>\<open>try_recv()\<close> returns \<open>v\<close>, the value sent. This holds for the object of
  \<^verbatim>\<open>aiosync\<close> and for the pair of handles of \<^verbatim>\<open>aio_sync\<close>, whether made by
  \<^verbatim>\<open>oneshot_channel()\<close> or by \<^verbatim>\<open>OneShot.channel()\<close>, in any heap.
\<close>

theorem send_then_try_recv:
  "fst (OneShot_send v OneShot_init) = Returned PyNone \<and>
   fst (OneShot_try_recv (snd (OneShot_send v OneShot_init))) = Returned v \<and>
   (case oneshot_channel h of ((sender, receiver), h1) \<Rightarrow>
      fst (send sender v h1)) = Returned PyNone \<and>
   (case oneshot_channel h of ((sender, receiver), h1) \<Rightarrow>
      fst (try_recv receiver (snd (send sender v h1)))) = Returned v \<and>
   (case channel h of ((sender, receiver), h1) \<Rightarrow>
      fst (try_recv receiver (snd (send sender v h1)))) = Returned v"
  by (simp add: channel_eq oneshot_channel_eq send_def try_recv_def OneShot_send_def
      OneShot_try_recv_def OneShot_init_def SharedState_init_def Event_init_def
      is_set_def set_event_def Let_def)


text \<open>
  C3: a \<^verbatim>\<open>send\<close> that follows a \<^verbatim>\<open>send\<close> raises and leaves the whole state as
  it was: the object, and in \<^verbatim>\<open>aio_sync\<close> the whole heap, are equal before and after.
  On a new channel \<^verbatim>\<open>send(v1)\<close> returns, \<^verbatim>\<open>send(v2)\<close> raises \<^verbatim>\<open>ValueError\<close> and
  \<^verbatim>\<open>try_recv()\<close> then returns \<open>v1\<close>.
\<close>

theorem second_send_changes_nothing:
  "OneShot_send v2 (snd (OneShot_send v1 self)) = (Raised ValueError, snd (OneShot_send v1 self)) \<and>
   fst (OneShot_run [Send v1, Send v2, TryRecv] OneShot_init) =
     [Returned PyNone, Raised ValueError, Returned v1] \<and>
   snd (OneShot_run [Send v1, Send v2, TryRecv] OneShot_init) = snd (OneShot_send v1 OneShot_init) \<and>
   send sender v2 (snd (send sender v1 h)) = (Raised ValueError, snd (send sender v1 h)) \<and>
   (case oneshot_channel h of ((sender, receiver), h1) \<Rightarrow>
      fst (run (sender, receiver) [Send v1, Send v2, TryRecv] h1)) =
     [Returned PyNone, Raised ValueError, Returned v1] \<and>
   (case oneshot_channel h of ((sender, receiver), h1) \<Rightarrow>
      snd (run (sender, receiver) [Send v1, Send v2, TryRecv] h1) = snd (send sender v1 h1))"
proof -
  have again: "OneShot_send v2 (snd (OneShot_send v1 s)) = (Raised ValueError, snd (OneShot_send v1 s))"
    for s :: "'a OneShot"
    by (simp add: OneShot_send_def is_set_def set_event_def Let_def)
  have h_again: "send s v2 (snd (send s v1 g)) = (Raised ValueError, snd (send s v1 g))"
    for s and g :: "'a heap"
    by (simp add: send_def is_set_def set_event_def Let_def)
  have first: "fst (OneShot_send v1 OneShot_init) = Returned PyNone"
    by (simp add: OneShot_send_empty OneShot_init_view)
  have third: "OneShot_try_recv (snd (OneShot_send v1 OneShot_init)) =
      (Returned v1, snd (OneShot_send v1 OneShot_init))"
    by (simp add: OneShot_send_def OneShot_try_recv_def OneShot_init_def Event_init_def
        is_set_def set_event_def Let_def)
  have outs: "fst (OneShot_run [Send v1, Send v2, TryRecv] OneShot_init) =
      [Returned PyNone, Raised ValueError, Returned v1]"
    by (simp add: OneShot_run_fst first again third)
  have fin: "snd (OneShot_run [Send v1, Send v2, TryRecv] OneShot_init) =
      snd (OneShot_send v1 OneShot_init)"
    by (simp add: OneShot_run_snd again third)
  let ?a = "next_addr h"
  let ?s = "OneShotSender ?a"
  let ?r = "OneShotReceiver ?a"
  let ?h1 = "h\<lparr>store := (store h)(?a := SharedState_init), next_addr := Suc ?a\<rparr>"
  have h_first: "fst (send ?s v1 ?h1) = Returned PyNone"
    by (simp add: send_def SharedState_init_def Event_init_def is_set_def Let_def)
  have h_third: "try_recv ?r (snd (send ?s v1 ?h1)) = (Returned v1, snd (send ?s v1 ?h1))"
    by (simp add: send_def try_recv_def SharedState_init_def Event_init_def
        is_set_def set_event_def Let_def)
  have h_outs: "fst (run (?s, ?r) [Send v1, Send v2, TryRecv] ?h1) =
      [Returned PyNone, Raised ValueError, Returned v1]"
    by (simp add: run_fst h_first h_again h_third)
  have h_fin: "snd (run (?s, ?r) [Send v1, Send v2, TryRecv] ?h1) = snd (send ?s v1 ?h1)"
    by (simp add: run_snd h_again h_third)
  show ?thesis
    using again [of self] outs fin h_again [of sender h] h_outs h_fin
    by (simp only: oneshot_channel_eq prod.case simp_thms)
qed

text \<open>
  C4, as the claim states it, fails: after \<^verbatim>\<open>send(None)\<close> on a new channel the wake
  signal is set and the sent flag is true while the value field is \<^verbatim>\<open>None\<close>, as it
  was before the call. The code tracks the deposit with the sent flag, and its
  assertion tests that flag and not the value, so a \<^verbatim>\<open>None\<close> payload is stored like
  any other.
\<close>

theorem signal_set_with_value_none:
  "is_set (OneShot_waker (OneShot_after [Send (PyNone :: int pyobj)])) \<and>
   OneShot_sent (OneShot_after [Send (PyNone :: int pyobj)]) \<and>
   OneShot_value (OneShot_after [Send (PyNone :: int pyobj)]) = PyNone \<and>
   \<not> (is_set (OneShot_waker (OneShot_after [Send (PyNone :: int pyobj)])) =
        (OneShot_sent (OneShot_after [Send (PyNone :: int pyobj)]) \<and>
         OneShot_value (OneShot_after [Send (PyNone :: int pyobj)]) \<noteq> PyNone)) \<and>
   is_set (waker (cell_after [Send (PyNone :: int pyobj)] empty_heap)) \<and>
   sent (cell_after [Send (PyNone :: int pyobj)] empty_heap) \<and>
   value (cell_after [Send (PyNone :: int pyobj)] empty_heap) = PyNone \<and>
   \<not> (is_set (waker (cell_after [Send (PyNone :: int pyobj)] empty_heap)) =
        (sent (cell_after [Send (PyNone :: int pyobj)] empty_heap) \<and>
         value (cell_after [Send (PyNone :: int pyobj)] empty_heap) \<noteq> PyNone))"
proof -
  have o: "OneShot_after [Send (PyNone :: int pyobj)] =
      \<lparr>OneShot_waker = \<lparr>flag = True, waiters = 0\<rparr>, OneShot_sent = True,
       OneShot_value = PyNone\<rparr>"
    by (simp add: OneShot_after_def OneShot_run_snd OneShot_send_def OneShot_init_def
        Event_init_def is_set_def set_event_def Let_def)
  have c: "cell_after [Send (PyNone :: int pyobj)] empty_heap =
      \<lparr>waker = \<lparr>flag = True, waiters = 0\<rparr>, sent = True, value = PyNone\<rparr>"
    by (simp add: cell_after_def oneshot_channel_eq run_snd send_def empty_heap_def
        SharedState_init_def Event_init_def is_set_def set_event_def Let_def)
  show ?thesis
    by (simp add: o c is_set_def)
qed

text \<open>
  C4, amended: in every state reached from a new channel by any sequence of calls of
  \<^verbatim>\<open>send\<close>, \<^verbatim>\<open>try_recv\<close> and \<^verbatim>\<open>recv\<close> and of resumptions of a parked
  \<^verbatim>\<open>recv\<close>, the wake signal is set if and only if the sent flag is true, and if and
  only if the sent flag is true and the value field holds the payload that the first
  \<^verbatim>\<open>send\<close> of the sequence deposited. Unless that payload is \<^verbatim>\<open>None\<close>, the signal
  is set if and only if the sent flag is true and the value is not \<^verbatim>\<open>None\<close>. The
  empty sequence is the construction. A turn of the event loop is the unit: inside
  \<^verbatim>\<open>send\<close> the three assignments follow each other with no \<^verbatim>\<open>await\<close> between them.
\<close>

theorem signal_iff_sent_and_value:
  "is_set (OneShot_waker (OneShot_after cs)) =
     (OneShot_sent (OneShot_after cs) \<and> first_sent cs = Some (OneShot_value (OneShot_after cs))) \<and>
   is_set (OneShot_waker (OneShot_after cs)) = OneShot_sent (OneShot_after cs) \<and>
   is_set (waker (cell_after cs h)) =
     (sent (cell_after cs h) \<and> first_sent cs = Some (value (cell_after cs h))) \<and>
   is_set (waker (cell_after cs h)) = sent (cell_after cs h) \<and>
   (first_sent cs \<noteq> Some PyNone \<longrightarrow>
      is_set (OneShot_waker (OneShot_after cs)) =
        (OneShot_sent (OneShot_after cs) \<and> OneShot_value (OneShot_after cs) \<noteq> PyNone) \<and>
      is_set (waker (cell_after cs h)) =
        (sent (cell_after cs h) \<and> value (cell_after cs h) \<noteq> PyNone))"
  using OneShot_after_view [of cs] cell_after_view [of cs h]
  by (cases "first_sent cs") (auto simp add: OneShot_view_def view_def)

theorem signal_iff_sent_and_value_witness:
  "first_sent [TryRecv, Send (Obj (4::int)), Recv] \<noteq> Some PyNone \<and>
   is_set (OneShot_waker (OneShot_after [TryRecv, Send (Obj (4::int)), Recv])) \<and>
   OneShot_sent (OneShot_after [TryRecv, Send (Obj (4::int)), Recv]) \<and>
   OneShot_value (OneShot_after [TryRecv, Send (Obj (4::int)), Recv]) \<noteq> PyNone \<and>
   is_set (waker (cell_after [TryRecv, Send (Obj (4::int)), Recv] empty_heap)) \<and>
   sent (cell_after [TryRecv, Send (Obj (4::int)), Recv] empty_heap) \<and>
   value (cell_after [TryRecv, Send (Obj (4::int)), Recv] empty_heap) \<noteq> PyNone"
proof -
  have f: "first_sent [TryRecv, Send (Obj (4::int)), Recv] \<noteq> Some PyNone"
    by simp
  have s: "OneShot_sent (OneShot_after [TryRecv, Send (Obj (4::int)), Recv])"
    by (simp add: OneShot_after_def OneShot_run_snd OneShot_defs OneShot_init_def
        Event_init_def Let_def)
  have v: "OneShot_value (OneShot_after [TryRecv, Send (Obj (4::int)), Recv]) \<noteq> PyNone"
    by (simp add: OneShot_after_def OneShot_run_snd OneShot_defs OneShot_init_def
        Event_init_def Let_def)
  have hs: "sent (cell_after [TryRecv, Send (Obj (4::int)), Recv] empty_heap)"
    by (simp add: cell_after_def oneshot_channel_eq run_snd aio_sync_defs is_set_def
        set_event_def wait_def empty_heap_def SharedState_init_def Event_init_def Let_def)
  have hv: "value (cell_after [TryRecv, Send (Obj (4::int)), Recv] empty_heap) \<noteq> PyNone"
    by (simp add: cell_after_def oneshot_channel_eq run_snd aio_sync_defs is_set_def
        set_event_def wait_def empty_heap_def SharedState_init_def Event_init_def Let_def)
  show ?thesis
    using f s v hs hv
      signal_iff_sent_and_value [of "[TryRecv, Send (Obj (4::int)), Recv]" empty_heap]
    by auto
qed

text \<open>
  C5: for every sequence of calls (and resumptions), the handles of a new channel of
  \<^verbatim>\<open>aio_sync\<close>, made by \<^verbatim>\<open>oneshot_channel()\<close> or by \<^verbatim>\<open>OneShot.channel()\<close> in
  any heap, and a new object of \<^verbatim>\<open>aiosync\<close> give the same outcomes call by call,
  the same values and the same exceptions, and the cell and the object end with the
  same fields.
\<close>

theorem modules_agree:
  "(case oneshot_channel h of ((sender, receiver), h1) \<Rightarrow>
      fst (run (sender, receiver) cs h1)) = fst (OneShot_run cs OneShot_init) \<and>
   (case channel h of ((sender, receiver), h1) \<Rightarrow>
      fst (run (sender, receiver) cs h1)) = fst (OneShot_run cs OneShot_init) \<and>
   as_OneShot (cell_after cs h) = OneShot_after cs"
  by (simp add: channel_eq oneshot_channel_eq run_outcomes as_OneShot_init cell_after_eq)

text \<open>
  C6: \<^verbatim>\<open>try_recv()\<close> on a new channel returns \<^verbatim>\<open>None\<close>. After any sequence of
  calls on a new channel it returns the payload of the \<^verbatim>\<open>send\<close> that went through, if
  there was one, and \<^verbatim>\<open>None\<close> otherwise; it never raises there, and it leaves the
  state as it was.
\<close>

theorem try_recv_value_or_none:
  "OneShot_try_recv OneShot_init = (Returned PyNone, OneShot_init) \<and>
   OneShot_try_recv (OneShot_after cs) =
     (Returned (case first_sent cs of None \<Rightarrow> PyNone | Some v \<Rightarrow> v), OneShot_after cs) \<and>
   (case oneshot_channel h of ((sender, receiver), h1) \<Rightarrow>
      try_recv receiver h1 = (Returned PyNone, h1)) \<and>
   (case oneshot_channel h of ((sender, receiver), h1) \<Rightarrow>
      try_recv receiver (snd (run (sender, receiver) cs h1)) =
        (Returned (case first_sent cs of None \<Rightarrow> PyNone | Some v \<Rightarrow> v),
         snd (run (sender, receiver) cs h1)))"
proof -
  have fresh: "OneShot_try_recv OneShot_init = (Returned PyNone, OneShot_init)"
    using OneShot_try_recv_view [OF OneShot_init_view] by simp
  have later: "OneShot_try_recv (OneShot_after cs) =
      (Returned (case first_sent cs of None \<Rightarrow> PyNone | Some v \<Rightarrow> v), OneShot_after cs)"
    by (rule OneShot_try_recv_view [OF OneShot_after_view])
  let ?a = "next_addr h"
  let ?r = "OneShotReceiver ?a"
  let ?h1 = "h\<lparr>store := (store h)(?a := SharedState_init), next_addr := Suc ?a\<rparr>"
  let ?h2 = "snd (run (OneShotSender ?a, ?r) cs ?h1)"
  have "view (store ?h1 (receiver_state ?r)) = cell_of None"
    by (simp add: view_def SharedState_init_def Event_init_def is_set_def)
  from try_recv_view [OF this] have h_fresh: "try_recv ?r ?h1 = (Returned PyNone, ?h1)"
    by simp
  have "view (store ?h2 (receiver_state ?r)) = cell_of (first_sent cs)"
    using cell_after_view [of cs h] by (simp add: cell_after_def oneshot_channel_eq)
  from try_recv_view [OF this] have h_later: "try_recv ?r ?h2 =
      (Returned (case first_sent cs of None \<Rightarrow> PyNone | Some v \<Rightarrow> v), ?h2)" .
  show ?thesis
    using fresh later h_fresh h_later
    by (simp only: oneshot_channel_eq prod.case simp_thms)
qed

text \<open>
  C7: if the wake signal is set when \<^verbatim>\<open>recv()\<close> is called, in a state reached from
  a new channel, then a \<^verbatim>\<open>send\<close> went through before, and \<^verbatim>\<open>recv()\<close> returns in
  the same turn, without suspending and without parking a waiter: its outcome is the
  stored value, which is the payload of that \<^verbatim>\<open>send\<close>, and the state is as it was.
\<close>

theorem recv_returns_at_once_when_set:
  "(is_set (OneShot_waker (OneShot_after cs)) \<longrightarrow>
      OneShot_recv (OneShot_after cs) =
        (Returned (OneShot_value (OneShot_after cs)), OneShot_after cs) \<and>
      first_sent cs = Some (OneShot_value (OneShot_after cs))) \<and>
   (is_set (waker (cell_after cs h)) \<longrightarrow>
      (case oneshot_channel h of ((sender, receiver), h1) \<Rightarrow>
         recv receiver (snd (run (sender, receiver) cs h1)) =
           (Returned (value (cell_after cs h)), snd (run (sender, receiver) cs h1))) \<and>
      first_sent cs = Some (value (cell_after cs h)))"
proof (intro conjI impI)
  assume "is_set (OneShot_waker (OneShot_after cs))"
  with OneShot_after_view [of cs]
  have v: "OneShot_view (OneShot_after cs) = cell_of (Some (OneShot_value (OneShot_after cs)))"
    and f: "first_sent cs = Some (OneShot_value (OneShot_after cs))"
    by (cases "first_sent cs"; simp add: OneShot_view_def)+
  show "OneShot_recv (OneShot_after cs) =
      (Returned (OneShot_value (OneShot_after cs)), OneShot_after cs)"
    by (rule OneShot_recv_filled [OF v])
  show "first_sent cs = Some (OneShot_value (OneShot_after cs))"
    by (rule f)
next
  assume "is_set (waker (cell_after cs h))"
  with cell_after_view [of cs h]
  have v: "view (cell_after cs h) = cell_of (Some (value (cell_after cs h)))"
    and f: "first_sent cs = Some (value (cell_after cs h))"
    by (cases "first_sent cs"; simp add: view_def)+
  let ?a = "next_addr h"
  let ?r = "OneShotReceiver ?a"
  let ?h1 = "h\<lparr>store := (store h)(?a := SharedState_init), next_addr := Suc ?a\<rparr>"
  let ?h2 = "snd (run (OneShotSender ?a, ?r) cs ?h1)"
  have c: "cell_after cs h = store ?h2 (receiver_state ?r)"
    by (simp add: cell_after_def oneshot_channel_eq)
  have "recv ?r ?h2 = (Returned (value (cell_after cs h)), ?h2)"
    using v unfolding c by (rule recv_filled)
  then show "case oneshot_channel h of ((sender, receiver), h1) \<Rightarrow>
      recv receiver (snd (run (sender, receiver) cs h1)) =
        (Returned (value (cell_after cs h)), snd (run (sender, receiver) cs h1))"
    by (simp only: oneshot_channel_eq prod.case)
  show "first_sent cs = Some (value (cell_after cs h))"
    by (rule f)
qed

theorem recv_returns_at_once_when_set_witness:
  "is_set (OneShot_waker (OneShot_after [Send (Obj (9::int))])) \<and>
   fst (OneShot_recv (OneShot_after [Send (Obj (9::int))])) = Returned (Obj 9) \<and>
   snd (OneShot_recv (OneShot_after [Send (Obj (9::int))])) = OneShot_after [Send (Obj 9)] \<and>
   is_set (waker (cell_after [Send (Obj (9::int))] empty_heap)) \<and>
   (case oneshot_channel empty_heap of ((sender, receiver), h1) \<Rightarrow>
      fst (recv receiver (snd (run (sender, receiver) [Send (Obj (9::int))] h1)))) =
     Returned (Obj 9)"
proof -
  have o: "OneShot_after [Send (Obj (9::int))] =
      \<lparr>OneShot_waker = \<lparr>flag = True, waiters = 0\<rparr>, OneShot_sent = True,
       OneShot_value = Obj 9\<rparr>"
    by (simp add: OneShot_after_def OneShot_run_snd OneShot_send_def OneShot_init_def
        Event_init_def is_set_def set_event_def Let_def)
  have c: "cell_after [Send (Obj (9::int))] empty_heap =
      \<lparr>waker = \<lparr>flag = True, waiters = 0\<rparr>, sent = True, value = Obj 9\<rparr>"
    by (simp add: cell_after_def oneshot_channel_eq run_snd send_def empty_heap_def
        SharedState_init_def Event_init_def is_set_def set_event_def Let_def)
  have a: "is_set (OneShot_waker (OneShot_after [Send (Obj (9::int))]))"
    by (simp add: o is_set_def)
  have b: "is_set (waker (cell_after [Send (Obj (9::int))] empty_heap))"
    by (simp add: c is_set_def)
  show ?thesis
    using a b recv_returns_at_once_when_set [of "[Send (Obj (9::int))]" empty_heap]
    by (simp add: o c oneshot_channel_eq)
qed

text \<open>
  C8: \<^verbatim>\<open>try_recv\<close> leaves the whole state as it was. \<^verbatim>\<open>recv\<close>, and the resumption
  of a parked \<^verbatim>\<open>recv\<close>, leave the value, the sent flag and the set or unset state of
  the signal of every cell as they were (a suspending \<^verbatim>\<open>recv\<close> parks a waiter in the
  event, which is no part of the three). \<^verbatim>\<open>send\<close> on a new channel changes all
  three. After a \<^verbatim>\<open>send\<close> on a new channel, any number \<open>n\<close> of calls of
  \<^verbatim>\<open>try_recv()\<close> return the value sent, each time.
\<close>

theorem receivers_observe_only:
  fixes self :: "'a OneShot" and v :: "'a pyobj" and g h :: "'a heap"
  shows
  "snd (OneShot_try_recv self) = self \<and>
   OneShot_view (snd (OneShot_recv self)) = OneShot_view self \<and>
   OneShot_view (snd (OneShot_resume self)) = OneShot_view self \<and>
   OneShot_view (OneShot_init :: 'a OneShot) = (False, False, PyNone) \<and>
   OneShot_view (snd (OneShot_send v OneShot_init)) = (True, True, v) \<and>
   fst (OneShot_run (replicate n TryRecv) (snd (OneShot_send v OneShot_init))) =
     replicate n (Returned v) \<and>
   snd (try_recv receiver g) = g \<and>
   view (store (snd (recv receiver g)) a) = view (store g a) \<and>
   view (store (snd (resume receiver g)) a) = view (store g a) \<and>
   (case oneshot_channel h of ((sender, receiver), h1) \<Rightarrow>
      view (store h1 (receiver_state receiver))) = (False, False, PyNone) \<and>
   (case oneshot_channel h of ((sender, receiver), h1) \<Rightarrow>
      view (store (snd (send sender v h1)) (receiver_state receiver))) = (True, True, v) \<and>
   (case oneshot_channel h of ((sender, receiver), h1) \<Rightarrow>
      fst (run (sender, receiver) (replicate n TryRecv) (snd (send sender v h1)))) =
     replicate n (Returned v)"
proof -
  have t: "snd (OneShot_try_recv self) = self"
    by (simp add: OneShot_try_recv_def)
  have r: "OneShot_view (snd (OneShot_recv self)) = OneShot_view self"
    by (simp add: OneShot_view_def OneShot_recv_def OneShot_recv_resume_def wait_def is_set_def)
  have w: "OneShot_view (snd (OneShot_resume self)) = OneShot_view self"
    by (simp add: OneShot_view_def OneShot_resume_def OneShot_recv_resume_def wake_def is_set_def)
  have i: "OneShot_view (OneShot_init :: 'a OneShot) = (False, False, PyNone)"
    by (simp add: OneShot_view_def OneShot_init_def Event_init_def is_set_def)
  have s: "OneShot_view (snd (OneShot_send v OneShot_init)) = cell_of (Some v)"
    by (simp add: OneShot_view_def OneShot_send_def OneShot_init_def Event_init_def
        is_set_def set_event_def Let_def)
  have again: "OneShot_try_recv x = (Returned v, x) \<Longrightarrow>
      fst (OneShot_run (replicate k TryRecv) x) = replicate k (Returned v)"
    for x :: "'a OneShot" and k
    by (induction k) (simp_all add: OneShot_run_fst)
  have many: "fst (OneShot_run (replicate k TryRecv) x) = replicate k (Returned v)"
    if "OneShot_view x = cell_of (Some v)" for x :: "'a OneShot" and k
    using again [of x k] OneShot_try_recv_view [OF that] by simp
  have ht: "snd (try_recv receiver g) = g"
    by (simp add: try_recv_def Let_def)
  have hr: "view (store (snd (recv receiver g)) a) = view (store g a)"
    by (simp add: view_def recv_def recv_resume_def wait_def is_set_def Let_def)
  have hw: "view (store (snd (resume receiver g)) a) = view (store g a)"
    by (simp add: view_def resume_def recv_resume_def wake_def is_set_def Let_def)
  let ?a = "next_addr h"
  let ?s = "OneShotSender ?a"
  let ?r = "OneShotReceiver ?a"
  let ?h1 = "h\<lparr>store := (store h)(?a := SharedState_init), next_addr := Suc ?a\<rparr>"
  have hi: "view (store ?h1 (receiver_state ?r)) = (False, False, PyNone)"
    by (simp add: view_def SharedState_init_def Event_init_def is_set_def)
  have hs: "view (store (snd (send ?s v ?h1)) (receiver_state ?r)) = (True, True, v)"
    by (simp add: view_def send_def SharedState_init_def Event_init_def
        is_set_def set_event_def Let_def)
  have "OneShot_view (as_OneShot (store (snd (send ?s v ?h1)) ?a)) = cell_of (Some v)"
    using hs by (simp add: as_OneShot_view)
  from many [OF this]
  have hmany: "fst (run (?s, ?r) (replicate n TryRecv) (snd (send ?s v ?h1))) =
      replicate n (Returned v)"
    by (simp only: run_outcomes)
  show ?thesis
    using t r w i s many [OF s, of n] ht hr hw hi hs hmany
    by (simp only: oneshot_channel_eq prod.case simp_thms cell_of.simps)
qed

text \<open>
  C9: no call and no resumption in any sequence on a new channel raises
  \<^verbatim>\<open>AssertionError\<close>: the assertion of \<^verbatim>\<open>try_recv\<close> and of \<^verbatim>\<open>recv\<close> holds
  whenever it is reached.
\<close>

theorem assertion_never_fires:
  "Raised AssertionError \<notin> set (fst (OneShot_run cs OneShot_init)) \<and>
   (case oneshot_channel h of ((sender, receiver), h1) \<Rightarrow>
      Raised AssertionError \<notin> set (fst (run (sender, receiver) cs h1)))"
  using OneShot_run_no_assert [OF OneShot_init_view, of cs]
  by (simp add: oneshot_channel_eq run_outcomes as_OneShot_init)

text \<open>
  C10: \<^verbatim>\<open>send(None)\<close> on a new channel returns, and a following \<^verbatim>\<open>try_recv()\<close>
  returns \<^verbatim>\<open>None\<close>, which is also what \<^verbatim>\<open>try_recv()\<close> returns on a new channel
  before any \<^verbatim>\<open>send\<close>: the two outcomes are equal.
\<close>

theorem none_payload_looks_empty:
  "fst (OneShot_send PyNone OneShot_init) = Returned PyNone \<and>
   fst (OneShot_try_recv (snd (OneShot_send PyNone OneShot_init))) = Returned PyNone \<and>
   fst (OneShot_try_recv (snd (OneShot_send PyNone OneShot_init))) =
     fst (OneShot_try_recv OneShot_init) \<and>
   (case oneshot_channel h of ((sender, receiver), h1) \<Rightarrow>
      fst (send sender PyNone h1)) = Returned PyNone \<and>
   (case oneshot_channel h of ((sender, receiver), h1) \<Rightarrow>
      fst (try_recv receiver (snd (send sender PyNone h1)))) = Returned PyNone \<and>
   (case oneshot_channel h of ((sender, receiver), h1) \<Rightarrow>
      fst (try_recv receiver (snd (send sender PyNone h1))) = fst (try_recv receiver h1))"
  by (simp add: oneshot_channel_eq send_def try_recv_def OneShot_send_def
      OneShot_try_recv_def OneShot_init_def SharedState_init_def Event_init_def
      is_set_def set_event_def Let_def)

end
